theory Spec2Isabelle
  imports
    Complex_Main
    "HOL-Library.Multiset"
    "HOL-Library.Sublist"
    "HOL-Library.Char_ord"
    "HOL-Library.List_Lexorder"
    "HOL-Library.Product_Lexorder"
    "HOL-Library.Finite_Map"
begin

section \<open>Feature preparation (run/prepare\_data.py)\<close>

text \<open>
  The script reads the series table of a phase, parses the timestamp, z-scores
  \<open>anglez\<close> and \<open>enmo\<close> with fixed constants, sorts by series and time, and writes
  eight arrays per series. Floating-point numbers are idealised as reals; an array
  carries the tag of its element type. The file system is a finite map from paths to
  files; a directory is present when some file lies under it.
\<close>

subsection \<open>Paths and files\<close>

type_synonym path = "string list"

text \<open>\<open>Path / name\<close> for a name that is a single component.\<close>

definition slash :: "path \<Rightarrow> string \<Rightarrow> path" where
  "slash p s = p @ [s]"

record 't series_row =
  series_id :: string
  anglez :: real
  enmo :: real
  timestamp :: 't

text \<open>A record of the input table: the columns of \<open>SERIES_SCHEMA\<close> and the timestamp string.\<close>

record raw_record = "string series_row" +
  step :: nat

datatype dtype = Float32 | Float64

record column =
  dtype :: dtype
  vals :: "real list"

datatype file_data = Parquet "raw_record list" | Npy dtype "real list"

type_synonym fs = "(path, file_data) fmap"

datatype error =
    ValueError string
  | ParseError
  | FileNotFoundError
  | ColumnNotFoundError string

definition path_exists :: "fs \<Rightarrow> path \<Rightarrow> bool" where
  "path_exists fs p = fBex (fmdom fs) (prefix p)"

definition rmtree :: "path \<Rightarrow> fs \<Rightarrow> fs" where
  "rmtree p fs = fmfilter (\<lambda>q. \<not> prefix p q) fs"

definition np_save :: "path \<Rightarrow> column \<Rightarrow> fs \<Rightarrow> fs" where
  "np_save p x fs = fmupd p (Npy (dtype x) (vals x)) fs"

definition scan_parquet :: "fs \<Rightarrow> path \<Rightarrow> error + raw_record list" where
  "scan_parquet fs p =
     (case fmlookup fs p of
        Some (Parquet recs) \<Rightarrow> Inr recs
      | _ \<Rightarrow> Inl FileNotFoundError)"

subsection \<open>Constants\<close>

definition FEATURE_NAMES :: "string list" where
  "FEATURE_NAMES =
     [''anglez'', ''enmo'', ''hour_sin'', ''hour_cos'',
      ''month_sin'', ''month_cos'', ''minute_sin'', ''minute_cos'']"

definition ANGLEZ_MEAN :: real where "ANGLEZ_MEAN = - 8810476 / 1000000"
definition ANGLEZ_STD :: real where "ANGLEZ_STD = 35521877 / 1000000"
definition ENMO_MEAN :: real where "ENMO_MEAN = 41315 / 1000000"
definition ENMO_STD :: real where "ENMO_STD = 101829 / 1000000"

subsection \<open>Timestamps\<close>

text \<open>
  \<open>str.to_datetime("%Y-%m-%dT%H:%M:%S%z")\<close> is the dataframe engine's strict parse. It is
  modelled as the fixed-width pattern \<open>YYYY-MM-DDTHH:MM:SS\<plusminus>HHMM\<close>; with \<open>%z\<close> the result is
  the instant in UTC, here in seconds since 1970-01-01T00:00:00Z. The \<open>dt\<close> accessors
  read the UTC calendar fields of that instant.
\<close>

type_synonym datetime = int

definition digit :: "char \<Rightarrow> int option" where
  "digit c = map_of (zip ''0123456789'' [0, 1, 2, 3, 4, 5, 6, 7, 8, 9]) c"

fun number :: "int \<Rightarrow> string \<Rightarrow> int option" where
  "number acc [] = Some acc"
| "number acc (c # cs) =
     (case digit c of None \<Rightarrow> None | Some d \<Rightarrow> number (10 * acc + d) cs)"

definition is_leap :: "int \<Rightarrow> bool" where
  "is_leap y = (y mod 4 = 0 \<and> (y mod 100 \<noteq> 0 \<or> y mod 400 = 0))"

definition days_in_month :: "int \<Rightarrow> int \<Rightarrow> int" where
  "days_in_month y m =
     (if m = 2 then (if is_leap y then 29 else 28)
      else if m = 4 \<or> m = 6 \<or> m = 9 \<or> m = 11 then 30 else 31)"

text \<open>Days since 1970-01-01 of a proleptic Gregorian date, and back.\<close>

definition days_from_civil :: "int \<Rightarrow> int \<Rightarrow> int \<Rightarrow> int" where
  "days_from_civil y m d =
     (let y' = (if m \<le> 2 then y - 1 else y);
          era = y' div 400;
          yoe = y' - era * 400;
          doy = (153 * (if m > 2 then m - 3 else m + 9) + 2) div 5 + d - 1;
          doe = yoe * 365 + yoe div 4 - yoe div 100 + doy
      in era * 146097 + doe - 719468)"

definition civil_from_days :: "int \<Rightarrow> int \<times> int \<times> int" where
  "civil_from_days z =
     (let z' = z + 719468;
          era = z' div 146097;
          doe = z' - era * 146097;
          yoe = (doe - doe div 1460 + doe div 36524 - doe div 146096) div 365;
          doy = doe - (365 * yoe + yoe div 4 - yoe div 100);
          mp = (5 * doy + 2) div 153;
          d = doy - (153 * mp + 2) div 5 + 1;
          m = (if mp < 10 then mp + 3 else mp - 9);
          y = yoe + era * 400
      in ((if m \<le> 2 then y + 1 else y), m, d))"

definition to_datetime :: "string \<Rightarrow> datetime option" where
  "to_datetime s =
     (if length s \<noteq> 24 \<or> s ! 4 \<noteq> CHR ''-'' \<or> s ! 7 \<noteq> CHR ''-'' \<or> s ! 10 \<noteq> CHR ''T''
         \<or> s ! 13 \<noteq> CHR '':'' \<or> s ! 16 \<noteq> CHR '':''
         \<or> (s ! 19 \<noteq> CHR ''+'' \<and> s ! 19 \<noteq> CHR ''-'')
      then None
      else
        (case (number 0 (take 4 s), number 0 (take 2 (drop 5 s)),
               number 0 (take 2 (drop 8 s)), number 0 (take 2 (drop 11 s)),
               number 0 (take 2 (drop 14 s)), number 0 (take 2 (drop 17 s)),
               number 0 (take 2 (drop 20 s)), number 0 (take 2 (drop 22 s))) of
           (Some Y, Some m, Some d, Some H, Some M, Some S, Some oh, Some om) \<Rightarrow>
             (if 1 \<le> m \<and> m \<le> 12 \<and> 1 \<le> d \<and> d \<le> days_in_month Y m
                 \<and> H < 24 \<and> M < 60 \<and> S < 60 \<and> oh < 24 \<and> om < 60
              then Some (days_from_civil Y m d * 86400 + H * 3600 + M * 60 + S
                         - (if s ! 19 = CHR ''-'' then - 1 else 1) * (oh * 3600 + om * 60))
              else None)
         | _ \<Rightarrow> None))"

definition dt_hour :: "datetime \<Rightarrow> int" where
  "dt_hour t = (t div 3600) mod 24"

definition dt_minute :: "datetime \<Rightarrow> int" where
  "dt_minute t = (t div 60) mod 60"

definition dt_month :: "datetime \<Rightarrow> int" where
  "dt_month t = fst (snd (civil_from_days (t div 86400)))"

subsection \<open>Cyclical encoding\<close>

text \<open>
  \<open>rad = 2 * np.pi * (x % max_) / max_\<close>: a Python float times an integer column, so the
  two result columns hold 64-bit floats. Python's \<open>%\<close> with a positive modulus is \<open>mod\<close>.
\<close>

definition to_coord :: "int list \<Rightarrow> int \<Rightarrow> string \<Rightarrow> (string \<times> column) list" where
  "to_coord x max' name =
     (let rad = map (\<lambda>v. 2 * pi * real_of_int (v mod max') / real_of_int max') x;
          x_sin = map sin rad;
          x_cos = map cos rad
      in [(name @ ''_sin'', \<lparr>dtype = Float64, vals = x_sin\<rparr>),
          (name @ ''_cos'', \<lparr>dtype = Float64, vals = x_cos\<rparr>)])"

fun select :: "string list \<Rightarrow> (string \<times> column) list \<Rightarrow> error + (string \<times> column) list" where
  "select [] df = Inr []"
| "select (n # ns) df =
     (case map_of df n of
        None \<Rightarrow> Inl (ColumnNotFoundError n)
      | Some c \<Rightarrow>
          (case select ns df of Inl e \<Rightarrow> Inl e | Inr r \<Rightarrow> Inr ((n, c) # r)))"

text \<open>
  The frame of one series enters as its rows; its numeric columns \<open>anglez\<close> and \<open>enmo\<close>
  are 32-bit as \<open>SERIES_SCHEMA\<close> declares them. The \<open>series_id\<close> column that is
  selected too is not saved and is left out.
\<close>

definition add_feature :: "datetime series_row list \<Rightarrow> error + (string \<times> column) list" where
  "add_feature series_df =
     select FEATURE_NAMES
       ([(''anglez'', \<lparr>dtype = Float32, vals = map anglez series_df\<rparr>),
         (''enmo'', \<lparr>dtype = Float32, vals = map enmo series_df\<rparr>)]
        @ to_coord (map (dt_hour \<circ> timestamp) series_df) 24 ''hour''
        @ to_coord (map (dt_month \<circ> timestamp) series_df) 12 ''month''
        @ to_coord (map (dt_minute \<circ> timestamp) series_df) 60 ''minute'')"

subsection \<open>Saving\<close>

fun save_columns :: "(string \<times> column) list \<Rightarrow> string list \<Rightarrow> path \<Rightarrow> fs \<Rightarrow> (error + unit) \<times> fs" where
  "save_columns df [] output_dir fs = (Inr (), fs)"
| "save_columns df (col_name # cols) output_dir fs =
     (case map_of df col_name of
        None \<Rightarrow> (Inl (ColumnNotFoundError col_name), fs)
      | Some x \<Rightarrow>
          save_columns df cols output_dir
            (np_save (slash output_dir (col_name @ ''.npy'')) x fs))"

text \<open>\<open>mkdir(parents=True, exist_ok=True)\<close> changes no file, and directories are implicit.\<close>

definition save_each_series ::
  "(string \<times> column) list \<Rightarrow> string list \<Rightarrow> path \<Rightarrow> fs \<Rightarrow> (error + unit) \<times> fs" where
  "save_each_series this_series_df columns output_dir fs =
     save_columns this_series_df columns output_dir fs"

subsection \<open>The run\<close>

record cfg =
  dir_processed_dir :: path
  dir_data_dir :: path
  phase :: string

definition series_path :: "cfg \<Rightarrow> error + path" where
  "series_path c =
     (if phase c \<in> set [''train'', ''test'']
      then Inr (slash (dir_data_dir c) (phase c @ ''_series.parquet''))
      else if phase c = ''dev''
      then Inr (slash (dir_processed_dir c) (phase c @ ''_series.parquet''))
      else Inl (ValueError (''Invalid phase: '' @ phase c)))"

definition normalize :: "raw_record \<Rightarrow> datetime \<Rightarrow> datetime series_row" where
  "normalize r t =
     \<lparr>series_id = series_id r,
      anglez = (anglez r - ANGLEZ_MEAN) / ANGLEZ_STD,
      enmo = (enmo r - ENMO_MEAN) / ENMO_STD,
      timestamp = t\<rparr>"

fun with_columns :: "raw_record list \<Rightarrow> error + datetime series_row list" where
  "with_columns [] = Inr []"
| "with_columns (r # rs) =
     (case to_datetime (timestamp r) of
        None \<Rightarrow> Inl ParseError
      | Some t \<Rightarrow>
          (case with_columns rs of
             Inl e \<Rightarrow> Inl e
           | Inr rows \<Rightarrow> Inr (normalize r t # rows)))"

definition preprocess :: "raw_record list \<Rightarrow> error + datetime series_row list" where
  "preprocess recs =
     (case with_columns recs of
        Inl e \<Rightarrow> Inl e
      | Inr rows \<Rightarrow> Inr (sort_key (\<lambda>r. (series_id r, timestamp r)) rows))"

text \<open>
  \<open>group_by("series_id")\<close>: one frame per distinct id, each holding its rows in the
  order of the sorted frame.
\<close>

definition group_by :: "datetime series_row list \<Rightarrow> (string \<times> datetime series_row list) list" where
  "group_by series_df =
     map (\<lambda>k. (k, filter (\<lambda>r. series_id r = k) series_df)) (remdups (map series_id series_df))"

fun save_features ::
  "path \<Rightarrow> (string \<times> datetime series_row list) list \<Rightarrow> fs \<Rightarrow> (error + unit) \<times> fs" where
  "save_features processed_dir [] fs = (Inr (), fs)"
| "save_features processed_dir ((sid, this_series_df) # groups) fs =
     (case add_feature this_series_df of
        Inl e \<Rightarrow> (Inl e, fs)
      | Inr df \<Rightarrow>
          (case save_each_series df FEATURE_NAMES (slash processed_dir sid) fs of
             (Inl e, fs') \<Rightarrow> (Inl e, fs')
           | (Inr u, fs') \<Rightarrow> save_features processed_dir groups fs'))"

definition main :: "cfg \<Rightarrow> fs \<Rightarrow> (error + unit) \<times> fs" where
  "main c fs =
     (let processed_dir = slash (dir_processed_dir c) (phase c);
          fs1 = (if path_exists fs processed_dir then rmtree processed_dir fs else fs)
      in case series_path c of
           Inl e \<Rightarrow> (Inl e, fs1)
         | Inr p \<Rightarrow>
             (case scan_parquet fs1 p of
                Inl e \<Rightarrow> (Inl e, fs1)
              | Inr recs \<Rightarrow>
                  (case preprocess recs of
                     Inl e \<Rightarrow> (Inl e, fs1)
                   | Inr series_df \<Rightarrow> save_features processed_dir (group_by series_df) fs1)))"

subsection \<open>Example inputs\<close>

definition good_record :: raw_record where
  "good_record = \<lparr>series_id = ''S1'', anglez = 0, enmo = 0,
                   timestamp = ''2021-01-01T00:00:00+0000'', step = 0\<rparr>"





section \<open>Auxiliary facts\<close>

lemma rmtree_guard: "(if path_exists fs p then rmtree p fs else fs) = rmtree p fs"
proof (cases "path_exists fs p")
  case True then show ?thesis by simp
next
  case False
  have "rmtree p fs = fs"
  proof (rule fmap_ext)
    fix q
    show "fmlookup (rmtree p fs) q = fmlookup fs q"
    proof (cases "fmlookup fs q")
      case None then show ?thesis by (simp add: rmtree_def)
    next
      case (Some a)
      then have "q |\<in>| fmdom fs" by (simp add: fmlookup_dom_iff)
      with False have "\<not> prefix p q" by (auto simp: path_exists_def)
      then show ?thesis by (simp add: rmtree_def)
    qed
  qed
  with False show ?thesis by simp
qed



lemma add_feature_eq:
  "add_feature df = Inr
     [(''anglez'', \<lparr>dtype = Float32, vals = map anglez df\<rparr>),
      (''enmo'', \<lparr>dtype = Float32, vals = map enmo df\<rparr>),
      (''hour_sin'', \<lparr>dtype = Float64, vals = map (\<lambda>r. sin (2 * pi * real_of_int (dt_hour (timestamp r) mod 24) / 24)) df\<rparr>),
      (''hour_cos'', \<lparr>dtype = Float64, vals = map (\<lambda>r. cos (2 * pi * real_of_int (dt_hour (timestamp r) mod 24) / 24)) df\<rparr>),
      (''month_sin'', \<lparr>dtype = Float64, vals = map (\<lambda>r. sin (2 * pi * real_of_int (dt_month (timestamp r) mod 12) / 12)) df\<rparr>),
      (''month_cos'', \<lparr>dtype = Float64, vals = map (\<lambda>r. cos (2 * pi * real_of_int (dt_month (timestamp r) mod 12) / 12)) df\<rparr>),
      (''minute_sin'', \<lparr>dtype = Float64, vals = map (\<lambda>r. sin (2 * pi * real_of_int (dt_minute (timestamp r) mod 60) / 60)) df\<rparr>),
      (''minute_cos'', \<lparr>dtype = Float64, vals = map (\<lambda>r. cos (2 * pi * real_of_int (dt_minute (timestamp r) mod 60) / 60)) df\<rparr>)]"
  by (simp add: add_feature_def FEATURE_NAMES_def to_coord_def Let_def comp_def)


lemma slash_inj [simp]: "slash p s = slash q t \<longleftrightarrow> p = q \<and> s = t"
  by (simp add: slash_def)









lemma main_eq:
  "main c fs =
     (let pd = slash (dir_processed_dir c) (phase c); fs1 = rmtree pd fs
      in case series_path c of
           Inl e \<Rightarrow> (Inl e, fs1)
         | Inr p \<Rightarrow>
             (case scan_parquet fs1 p of
                Inl e \<Rightarrow> (Inl e, fs1)
              | Inr recs \<Rightarrow>
                  (case preprocess recs of
                     Inl e \<Rightarrow> (Inl e, fs1)
                   | Inr series_df \<Rightarrow> save_features pd (group_by series_df) fs1)))"
  by (simp add: main_def rmtree_guard Let_def)





lemma ts_good: "to_datetime ''2021-01-01T00:00:00+0000'' = Some 1609459200"
  by (simp add: to_datetime_def digit_def days_in_month_def days_from_civil_def Let_def)
























section \<open>Properties\<close>





text \<open>
  C10. For the phases \<open>train\<close> and \<open>test\<close> the series table is
  \<open>{data_dir}/{phase}_series.parquet\<close>; for \<open>dev\<close> it is
  \<open>{processed_dir}/dev_series.parquet\<close>, under the root of the processed output. The run
  reads the records of exactly that file, after the directory of the phase was removed.
\<close>

theorem series_source:
  "series_path (c\<lparr>phase := ''train''\<rparr>) = Inr (dir_data_dir c @ [''train_series.parquet''])
   \<and> series_path (c\<lparr>phase := ''test''\<rparr>) = Inr (dir_data_dir c @ [''test_series.parquet''])
   \<and> series_path (c\<lparr>phase := ''dev''\<rparr>) = Inr (dir_processed_dir c @ [''dev_series.parquet''])
   \<and> main c fs =
        (let fs1 = rmtree (dir_processed_dir c @ [phase c]) fs in
         case series_path c of
           Inl e \<Rightarrow> (Inl e, fs1)
         | Inr p \<Rightarrow>
            (case fmlookup fs1 p of
               Some (Parquet recs) \<Rightarrow>
                 (case preprocess recs of
                    Inl e \<Rightarrow> (Inl e, fs1)
                  | Inr series_df \<Rightarrow>
                      save_features (dir_processed_dir c @ [phase c]) (group_by series_df) fs1)
             | _ \<Rightarrow> (Inl FileNotFoundError, fs1)))"
  by (simp add: series_path_def main_eq slash_def Let_def scan_parquet_def
      split: sum.splits option.splits file_data.splits)



text \<open>
  C2. The normalisation keeps the records in place, one for one, and replaces \<open>anglez\<close>
  by \<open>(anglez - (-8.810476)) / 35.521877\<close> and \<open>enmo\<close> by
  \<open>(enmo - 0.041315) / 0.101829\<close>. Nothing is clipped: every real \<open>y\<close> is the
  normalised value of some input.
\<close>

theorem normalize_step:
  assumes "with_columns recs = Inr rows"
  shows "map series_id rows = map series_id recs
    \<and> map anglez rows = map (\<lambda>r. (anglez r - (- 8.810476)) / 35.521877) recs
    \<and> map enmo rows = map (\<lambda>r. (enmo r - 0.041315) / 0.101829) recs
    \<and> anglez (normalize (r\<lparr>anglez := y * 35.521877 + (- 8.810476)\<rparr>) t) = y
    \<and> enmo (normalize (r\<lparr>enmo := y * 0.101829 + 0.041315\<rparr>) t) = y"
proof -
  have "map series_id rows = map series_id recs
    \<and> map anglez rows = map (\<lambda>r. (anglez r - (- 8.810476)) / 35.521877) recs
    \<and> map enmo rows = map (\<lambda>r. (enmo r - 0.041315) / 0.101829) recs"
    using assms
    by (induction recs arbitrary: rows)
       (auto simp: normalize_def ANGLEZ_MEAN_def ANGLEZ_STD_def ENMO_MEAN_def ENMO_STD_def
             split: option.splits sum.splits)
  moreover have "anglez (normalize (r\<lparr>anglez := y * 35.521877 + (- 8.810476)\<rparr>) t) = y"
    by (simp add: normalize_def ANGLEZ_MEAN_def ANGLEZ_STD_def)
  moreover have "enmo (normalize (r\<lparr>enmo := y * 0.101829 + 0.041315\<rparr>) t) = y"
    by (simp add: normalize_def ENMO_MEAN_def ENMO_STD_def)
  ultimately show ?thesis by blast
qed

theorem normalize_step_witness:
  "with_columns [good_record] = Inr [normalize good_record 1609459200]
   \<and> map anglez [normalize good_record 1609459200]
       = map (\<lambda>r. (anglez r - (- 8.810476)) / 35.521877) [good_record]"
proof -
  have h: "with_columns [good_record] = Inr [normalize good_record 1609459200]"
    by (simp add: good_record_def ts_good)
  from h normalize_step [OF h] show ?thesis by blast
qed


text \<open>
  C9. For every timestamp that parses and each of the hour, month and minute features, the
  sine and cosine values emitted for a row with that timestamp satisfy
  \<open>sin\<^sup>2 + cos\<^sup>2 = 1\<close> (exactly, over the reals).
\<close>

theorem sin_cos_unit_circle:
  assumes "to_datetime s = Some t" and "add_feature (df1 @ r\<lparr>timestamp := t\<rparr> # df2) = Inr cols"
    and "name \<in> {''hour'', ''month'', ''minute''}"
  shows "\<exists>xs xc. map_of cols (name @ ''_sin'') = Some xs \<and> map_of cols (name @ ''_cos'') = Some xc
      \<and> length df1 < length (vals xs) \<and> length df1 < length (vals xc)
      \<and> (vals xs ! length df1)\<^sup>2 + (vals xc ! length df1)\<^sup>2 = 1"
  using assms(2,3) by (auto simp: add_feature_eq nth_append)

theorem sin_cos_unit_circle_witness:
  "to_datetime ''2021-01-01T00:00:00+0000'' = Some 1609459200
   \<and> (\<exists>xs xc. map_of (projr (add_feature [normalize good_record 1609459200])) ''month_sin'' = Some xs
        \<and> map_of (projr (add_feature [normalize good_record 1609459200])) ''month_cos'' = Some xc
        \<and> (vals xs ! 0)\<^sup>2 + (vals xc ! 0)\<^sup>2 = 1)"
proof -
  have a: "add_feature ([] @ (normalize good_record 0)\<lparr>timestamp := 1609459200\<rparr> # [])
      = Inr (projr (add_feature [normalize good_record 1609459200]))"
    by (simp add: add_feature_eq normalize_def)
  have n: "''month'' \<in> {''hour'', ''month'', ''minute''}" by simp
  from sin_cos_unit_circle [OF ts_good a n] ts_good show ?thesis by auto
qed







end
